theory Spec2Isabelle
  imports Complex_Main "HOL-Library.List_Lexorder" "HOL-Library.Char_ord"
begin

section \<open>Exceptions\<close>

text \<open>
  Every \<^verbatim>\<open>raise\<close> of the Python source is a value of \<open>error\<close>; a function that can
  raise returns \<open>error + 'a\<close> with \<open>Inl\<close> for the exception. The constructors are
  subclasses of Python's \<^verbatim>\<open>Exception\<close>, so an \<^verbatim>\<open>except Exception\<close> clause catches
  each of them. \<open>HTTPException\<close> carries the status code and the detail message.
\<close>

datatype error =
    ValueError
  | OverflowError
  | TypeError
  | AttributeError
  | NotImplementedError
  | ZeroDivisionError
  | KeyError
  | HTTPException nat string
  | OtherException string

section \<open>Python strings and numbers\<close>

text \<open>
  The built-ins of Python that the source calls on its string inputs. A string is a list
  of characters with code points below 256 (\<open>char\<close> is eight bits wide); the functions
  below are Python's on that range.
\<close>

text \<open>The characters \<^verbatim>\<open>str.strip()\<close> removes: Python's whitespace below code point 256.\<close>

definition is_space :: "char \<Rightarrow> bool" where
  "is_space c = ((of_char c :: nat) \<in> {9, 10, 11, 12, 13, 28, 29, 30, 31, 32, 133, 160})"

definition strip :: "string \<Rightarrow> string" where
  "strip s = rev (dropWhile is_space (rev (dropWhile is_space s)))"

text \<open>\<^verbatim>\<open>str.lower()\<close>: the upper-case letters of ASCII and of Latin-1 move up by 32.\<close>

definition lower_char :: "char \<Rightarrow> char" where
  "lower_char c =
     (let n = (of_char c :: nat)
      in if (65 \<le> n \<and> n \<le> 90) \<or> (192 \<le> n \<and> n \<le> 222 \<and> n \<noteq> 215)
         then char_of (n + 32) else c)"

definition lower :: "string \<Rightarrow> string" where
  "lower s = map lower_char s"

text \<open>
  \<^verbatim>\<open>raw.split(sep)\<close> with a one-character separator: every piece is kept, also the
  empty ones, and the empty string gives one empty piece.
\<close>

fun split :: "char \<Rightarrow> string \<Rightarrow> string list" where
  "split sep [] = [[]]"
| "split sep (c # cs) =
     (if c = sep then [] # split sep cs
      else (case split sep cs of [] \<Rightarrow> [[c]] | w # ws \<Rightarrow> (c # w) # ws))"

text \<open>\<^verbatim>\<open>sep.join(parts)\<close>\<close>

fun join :: "string \<Rightarrow> string list \<Rightarrow> string" where
  "join sep [] = []"
| "join sep [p] = p"
| "join sep (p # q # ps) = p @ sep @ join sep (q # ps)"

definition is_digit :: "char \<Rightarrow> bool" where
  "is_digit c = (48 \<le> (of_char c :: nat) \<and> (of_char c :: nat) \<le> 57)"

definition digit_val :: "char \<Rightarrow> nat" where
  "digit_val c = of_char c - 48"

text \<open>
  A run of decimal digits in which single underscores may separate digits, as the
  literals of \<^verbatim>\<open>int()\<close> and \<^verbatim>\<open>float()\<close> allow: the digits read and the rest.
\<close>

fun digitpart :: "string \<Rightarrow> string \<times> string" where
  "digitpart [] = ([], [])"
| "digitpart (c # cs) =
     (if is_digit c then
        (case cs of
           u # d # rest \<Rightarrow>
             if u = CHR ''_'' \<and> is_digit d
             then (case digitpart (d # rest) of (ds, r) \<Rightarrow> (c # ds, r))
             else (case digitpart cs of (ds, r) \<Rightarrow> (c # ds, r))
         | _ \<Rightarrow> (case digitpart cs of (ds, r) \<Rightarrow> (c # ds, r)))
      else ([], c # cs))"

definition int_of_digits :: "string \<Rightarrow> int" where
  "int_of_digits ds = foldl (\<lambda>acc c. 10 * acc + int (digit_val c)) 0 ds"

text \<open>An optional sign: the factor and the rest.\<close>

fun sign_part :: "string \<Rightarrow> int \<times> string" where
  "sign_part [] = (1, [])"
| "sign_part (c # cs) =
     (if c = CHR ''-'' then (- 1, cs) else if c = CHR ''+'' then (1, cs) else (1, c # cs))"

text \<open>
  \<^verbatim>\<open>int(raw)\<close> on a string, base ten: surrounding whitespace, an optional sign, digits.
  Anything else is a \<^verbatim>\<open>ValueError\<close>, and so is a literal of more than 4300 digits
  (the default limit of the interpreter).
\<close>

definition py_int :: "string \<Rightarrow> error + int" where
  "py_int raw =
     (case sign_part (strip raw) of (sg, body) \<Rightarrow>
        (case digitpart body of (ds, rest) \<Rightarrow>
           if ds = [] \<or> rest \<noteq> [] \<or> 4300 < length ds then Inl ValueError
           else Inr (sg * int_of_digits ds)))"

text \<open>
  Floats: a finite float is the rational number it denotes, next to the two infinities
  and not-a-number. (The sign of zero is not kept: nothing here depends on it.)
\<close>

datatype pyfloat = Finite rat | PosInf | NegInf | NaN

text \<open>The number of binary digits of a positive integer, \<^verbatim>\<open>int.bit_length\<close>.\<close>

function bit_length :: "int \<Rightarrow> int" where
  "bit_length n = (if n \<le> 0 then 0 else 1 + bit_length (n div 2))"
  by pat_completeness auto
termination
  by (relation "measure nat") auto

declare bit_length.simps [simp del]

definition pow2 :: "int \<Rightarrow> rat" where
  "pow2 k = (if 0 \<le> k then 2 ^ nat k else 1 / 2 ^ nat (- k))"

text \<open>For a positive rational \<open>q\<close>, the integer \<open>k\<close> with \<open>2 ^ k \<le> q < 2 ^ (k + 1)\<close>.\<close>

definition floor_log2 :: "rat \<Rightarrow> int" where
  "floor_log2 q =
     (case quotient_of q of (a, b) \<Rightarrow>
        let d = bit_length a - bit_length b
        in if pow2 d \<le> q then d else d - 1)"

definition round_half_even :: "rat \<Rightarrow> int" where
  "round_half_even x =
     (let f = \<lfloor>x\<rfloor>; d = x - of_int f
      in if d < 1 / 2 then f else if 1 / 2 < d then f + 1 else if even f then f else f + 1)"

text \<open>
  The IEEE 754 binary64 number nearest to a positive rational, ties to even: 53
  significant bits, the exponent of the last bit not below \<open>- 1074\<close> (the subnormal
  range). The exponent is not bounded above here; the caller tests for overflow.
\<close>

definition round_binary64 :: "rat \<Rightarrow> rat" where
  "round_binary64 q =
     (let e = max (floor_log2 q - 52) (- 1074)
      in of_int (round_half_even (q / pow2 e)) * pow2 e)"

text \<open>Rounding any rational to a float; what does not fit becomes an infinity.\<close>

definition to_float :: "rat \<Rightarrow> pyfloat" where
  "to_float q =
     (if q = 0 then Finite 0
      else if 0 < q then (let r = round_binary64 q in if 2 ^ 1024 \<le> r then PosInf else Finite r)
      else (let r = round_binary64 (- q) in if 2 ^ 1024 \<le> r then NegInf else Finite (- r)))"

text \<open>
  \<^verbatim>\<open>a / b\<close> on two integers (true division): the correctly rounded quotient;
  \<^verbatim>\<open>ZeroDivisionError\<close> for a zero divisor, \<^verbatim>\<open>OverflowError\<close> when the quotient is
  too large for a float.
\<close>

definition py_truediv :: "int \<Rightarrow> int \<Rightarrow> error + rat" where
  "py_truediv a b =
     (if b = 0 then Inl ZeroDivisionError
      else (case to_float (of_int a / of_int b) of
              Finite r \<Rightarrow> Inr r
            | _ \<Rightarrow> Inl OverflowError))"

text \<open>\<^verbatim>\<open>math.ceil\<close> on a finite float.\<close>

definition py_ceil :: "rat \<Rightarrow> int" where
  "py_ceil r = \<lceil>r\<rceil>"

text \<open>
  \<^verbatim>\<open>int(x)\<close> on a float truncates toward zero; an infinity raises
  \<^verbatim>\<open>OverflowError\<close> and not-a-number raises \<^verbatim>\<open>ValueError\<close>.
\<close>

fun int_of_float :: "pyfloat \<Rightarrow> error + int" where
  "int_of_float (Finite r) = Inr (if 0 \<le> r then \<lfloor>r\<rfloor> else \<lceil>r\<rceil>)"
| "int_of_float PosInf = Inl OverflowError"
| "int_of_float NegInf = Inl OverflowError"
| "int_of_float NaN = Inl ValueError"

text \<open>
  The decimal literal of \<^verbatim>\<open>float(raw)\<close> after the sign: digits, an optional fraction,
  an optional exponent, at least one digit before the exponent; its exact value.
\<close>

definition exponent_part :: "string \<Rightarrow> int option" where
  "exponent_part s =
     (case s of
        [] \<Rightarrow> Some 0
      | c # cs \<Rightarrow>
          if c = CHR ''e'' \<or> c = CHR ''E'' then
            (case sign_part cs of (sg, body) \<Rightarrow>
               (case digitpart body of (ds, rest) \<Rightarrow>
                  if ds = [] \<or> rest \<noteq> [] then None else Some (sg * int_of_digits ds)))
          else None)"

definition decimal_literal :: "string \<Rightarrow> rat option" where
  "decimal_literal s =
     (case digitpart s of (ip, r1) \<Rightarrow>
        (case (case r1 of
                 c # cs \<Rightarrow> if c = CHR ''.'' then digitpart cs else ([], r1)
               | [] \<Rightarrow> ([], r1)) of (fp, r2) \<Rightarrow>
           if ip = [] \<and> fp = [] then None
           else (case exponent_part r2 of
                   None \<Rightarrow> None
                 | Some ex \<Rightarrow>
                     let k = ex - int (length fp); m = of_int (int_of_digits (ip @ fp))
                     in Some (if 0 \<le> k then m * 10 ^ nat k else m / 10 ^ nat (- k)))))"

text \<open>
  \<^verbatim>\<open>float(raw)\<close> on a string: surrounding whitespace, an optional sign, then one of
  \<^verbatim>\<open>inf\<close>, \<^verbatim>\<open>infinity\<close>, \<^verbatim>\<open>nan\<close> in any case or a decimal literal, rounded to the
  nearest float. Anything else is a \<^verbatim>\<open>ValueError\<close>.
\<close>

definition py_float :: "string \<Rightarrow> error + pyfloat" where
  "py_float raw =
     (case sign_part (strip raw) of (sg, body) \<Rightarrow>
        if lower body = ''inf'' \<or> lower body = ''infinity''
          then Inr (if sg < 0 then NegInf else PosInf)
        else if lower body = ''nan'' then Inr NaN
        else (case decimal_literal body of
                None \<Rightarrow> Inl ValueError
              | Some q \<Rightarrow> Inr (to_float (of_int sg * q))))"

text \<open>
  Objects of unknown class are probed by attribute access. An access has three outcomes:
  the attribute is missing (\<^verbatim>\<open>AttributeError\<close>), reading it raises some other
  exception (a property), or it has a value. An attribute that may hold \<^verbatim>\<open>None\<close>
  has an \<open>option\<close> value.
\<close>

datatype 'a attr = Missing | Fails error | Has 'a

text \<open>\<^verbatim>\<open>obj.name\<close>: a plain attribute access.\<close>

fun getattr :: "'a attr \<Rightarrow> error + 'a" where
  "getattr Missing = Inl AttributeError"
| "getattr (Fails e) = Inl e"
| "getattr (Has v) = Inr v"

text \<open>\<^verbatim>\<open>getattr(obj, name, None)\<close>: only the missing attribute turns into the default.\<close>

fun getattr_default :: "'a option attr \<Rightarrow> error + 'a option" where
  "getattr_default Missing = Inr None"
| "getattr_default (Fails e) = Inl e"
| "getattr_default (Has v) = Inr v"

section \<open>config.py: FSPConfig\<close>

record FSPConfig =
  max_per_page :: int
  default_per_page :: int
  default_page :: int
  min_per_page :: int
  strict_mode :: bool
  allow_deep_pagination :: bool
  max_page :: "int option"

text \<open>The defaults of the dataclass fields.\<close>

definition FSPConfig_default :: FSPConfig where
  "FSPConfig_default =
     \<lparr>max_per_page = 100, default_per_page = 10, default_page = 1, min_per_page = 1,
      strict_mode = False, allow_deep_pagination = True, max_page = None\<rparr>"

text \<open>
  \<^verbatim>\<open>__post_init__\<close> runs at the end of every construction of an \<^verbatim>\<open>FSPConfig\<close> and
  raises \<^verbatim>\<open>ValueError\<close> at the first check that fails, in the order of the source.
\<close>

definition post_init :: "FSPConfig \<Rightarrow> error + FSPConfig" where
  "post_init c =
     (if max_per_page c < 1 then Inl ValueError
      else if default_per_page c < 1 then Inl ValueError
      else if default_per_page c > max_per_page c then Inl ValueError
      else if min_per_page c < 1 then Inl ValueError
      else if min_per_page c > max_per_page c then Inl ValueError
      else if default_page c < 1 then Inl ValueError
      else if (case max_page c of None \<Rightarrow> False | Some m \<Rightarrow> m < 1) then Inl ValueError
      else Inr c)"

definition validate_page :: "FSPConfig \<Rightarrow> int \<Rightarrow> error + int" where
  "validate_page c page =
     (if page < 1 then Inr (default_page c)
      else if \<not> allow_deep_pagination c \<and> max_page c \<noteq> None \<and> page > the (max_page c)
        then Inl ValueError
      else Inr page)"

definition validate_per_page :: "FSPConfig \<Rightarrow> int \<Rightarrow> int" where
  "validate_per_page c per_page =
     (if per_page < min_per_page c then min_per_page c
      else if per_page > max_per_page c then max_per_page c
      else per_page)"

section \<open>models.py\<close>

datatype FilterOperator =
    EQ | NE | GT | GTE | LT | LTE
  | LIKE | NOT_LIKE | ILIKE | NOT_ILIKE
  | IN | NOT_IN
  | BETWEEN
  | IS_NULL | IS_NOT_NULL
  | STARTS_WITH | ENDS_WITH | CONTAINS

datatype SortingOrder = ASC | DESC

record Filter =
  f_field :: string
  f_operator :: FilterOperator
  f_value :: string

record OrFilterGroup =
  group_filters :: "Filter list"

record PaginationQuery =
  page :: int
  per_page :: int

record SortingQuery =
  sort_by :: string
  sort_order :: SortingOrder

record Pagination =
  total_items :: "int option"
  pagination_per_page :: int
  current_page :: int
  total_pages :: "int option"

record Meta =
  meta_pagination :: Pagination
  meta_filters :: "Filter list option"
  meta_or_filters :: "OrFilterGroup list option"
  meta_sort :: "SortingQuery option"

record Links =
  link_self :: string
  link_first :: string
  link_next :: "string option"
  link_prev :: "string option"
  link_last :: "string option"

record 'a PaginatedResponse =
  response_data :: "'a list"
  response_meta :: Meta
  response_links :: Links

section \<open>filters.py\<close>

subsection \<open>Columns, Python values and SQL conditions\<close>

text \<open>
  The Python type a column reports as \<^verbatim>\<open>column.type.python_type\<close>. \<open>T_other n\<close> is
  any class besides the five the source tests for, named by a number.
\<close>

datatype pytype = T_str | T_bool | T_int | T_float | T_datetime | T_other nat

text \<open>
  The values a coercion can return. \<open>PyObject n\<close> is an object the model does not look
  into (a \<^verbatim>\<open>datetime\<close>, a \<^verbatim>\<open>Decimal\<close>, a member of an enumeration).
\<close>

datatype pyval = PyStr string | PyBool bool | PyInt int | PyFloat pyfloat | PyObject nat

text \<open>
  The library functions the coercion calls on the raw string and whose code is not part
  of this repository: \<^verbatim>\<open>datetime.fromisoformat\<close>, \<^verbatim>\<open>dateutil.parser.parse\<close>, the
  test \<^verbatim>\<open>isinstance(raw, cls)\<close> and the call \<^verbatim>\<open>cls(raw)\<close> for a class \<open>T_other\<close>.
  They are parameters of the model.
\<close>

record env =
  fromisoformat :: "string \<Rightarrow> error + pyval"
  dateutil_parse :: "string \<Rightarrow> error + pyval"
  str_is_instance :: "nat \<Rightarrow> bool"
  construct :: "nat \<Rightarrow> string \<Rightarrow> error + pyval"

text \<open>
  A column element, as far as the source looks at it: its identity (\<^verbatim>\<open>id(column)\<close>),
  the outcome of reading \<^verbatim>\<open>column.type.python_type\<close>, and whether it has an
  \<^verbatim>\<open>ilike\<close> attribute.
\<close>

record column =
  col_id :: nat
  python_type :: "pytype option attr"
  has_ilike :: bool

text \<open>The SQL expressions and conditions the strategies build.\<close>

datatype sqlexpr = Col column | Lower sqlexpr | Cast_String sqlexpr

datatype comparison = Op_eq | Op_ne | Op_gt | Op_ge | Op_lt | Op_le

datatype condition =
    Compare comparison sqlexpr pyval
  | Like sqlexpr string
  | Ilike sqlexpr string
  | In_list sqlexpr "pyval list"
  | Between sqlexpr pyval pyval
  | Is_null sqlexpr
  | Is_not_null sqlexpr
  | Negate condition

subsection \<open>Coercion\<close>

text \<open>\<^verbatim>\<open>isinstance(raw, pytype)\<close> for the string \<open>raw\<close>.\<close>

fun isinstance_str :: "env \<Rightarrow> pytype \<Rightarrow> bool" where
  "isinstance_str en T_str = True"
| "isinstance_str en (T_other n) = str_is_instance en n"
| "isinstance_str en t = False"

text \<open>
  \<^verbatim>\<open>pytype(raw)\<close>, the call of the class on the string. \<^verbatim>\<open>bool(raw)\<close> is the
  truth value of a string: true unless it is empty. \<^verbatim>\<open>datetime(raw)\<close> is a
  \<^verbatim>\<open>TypeError\<close>.
\<close>

fun call_pytype :: "env \<Rightarrow> pytype \<Rightarrow> string \<Rightarrow> error + pyval" where
  "call_pytype en T_str raw = Inr (PyStr raw)"
| "call_pytype en T_bool raw = Inr (PyBool (raw \<noteq> []))"
| "call_pytype en T_int raw = map_sum id PyInt (py_int raw)"
| "call_pytype en T_float raw = map_sum id PyFloat (py_float raw)"
| "call_pytype en T_datetime raw = Inl TypeError"
| "call_pytype en (T_other n) raw = construct en n raw"

text \<open>
  \<^verbatim>\<open>_coerce_value\<close>. An \<^verbatim>\<open>except ValueError\<close> clause lets every other exception
  through; an exception raised inside a handler leaves the function.
\<close>

definition coerce_int :: "string \<Rightarrow> error + pyval" where
  "coerce_int raw =
     (case py_int raw of
        Inr n \<Rightarrow> Inr (PyInt n)
      | Inl e \<Rightarrow>
          if e = ValueError then
            (case py_float raw of
               Inl e' \<Rightarrow> if e' = ValueError then Inr (PyStr raw) else Inl e'
             | Inr x \<Rightarrow>
                 (case int_of_float x of
                    Inl e' \<Rightarrow> if e' = ValueError then Inr (PyStr raw) else Inl e'
                  | Inr n \<Rightarrow> Inr (PyInt n)))
          else Inl e)"

definition coerce_datetime :: "env \<Rightarrow> string \<Rightarrow> error + pyval" where
  "coerce_datetime en raw =
     (case fromisoformat en raw of
        Inr v \<Rightarrow> Inr v
      | Inl e \<Rightarrow>
          if e = ValueError \<or> e = AttributeError then
            (case dateutil_parse en raw of
               Inr v \<Rightarrow> Inr v
             | Inl e' \<Rightarrow> if e' = ValueError then Inr (PyStr raw) else Inl e')
          else Inl e)"

definition coerce_value :: "env \<Rightarrow> column \<Rightarrow> string \<Rightarrow> pytype option \<Rightarrow> error + pyval" where
  "coerce_value en column raw pytype =
     (let pytype = (case pytype of
                      Some t \<Rightarrow> Some t
                    | None \<Rightarrow> (case getattr_default (python_type column) of
                                 Inl e \<Rightarrow> None
                               | Inr t \<Rightarrow> t))
      in case pytype of
           None \<Rightarrow> Inr (PyStr raw)
         | Some t \<Rightarrow>
             if isinstance_str en t then Inr (PyStr raw)
             else if t = T_bool \<and> lower (strip raw) \<in> {''true'', ''1'', ''t'', ''yes'', ''y''}
               then Inr (PyBool True)
             else if t = T_bool \<and> lower (strip raw) \<in> {''false'', ''0'', ''f'', ''no'', ''n''}
               then Inr (PyBool False)
             else if t = T_int then coerce_int raw
             else if t = T_datetime then coerce_datetime en raw
             else (case call_pytype en t raw of
                     Inl e \<Rightarrow> Inr (PyStr raw)
                   | Inr v \<Rightarrow> Inr v))"

text \<open>\<^verbatim>\<open>_split_values\<close>\<close>

definition split_values :: "string \<Rightarrow> string list" where
  "split_values raw = map strip (split CHR '','' raw)"

text \<open>\<^verbatim>\<open>_ilike_supported\<close>\<close>

definition ilike_supported :: "column \<Rightarrow> bool" where
  "ilike_supported col = has_ilike col"

subsection \<open>The strategies\<close>

type_synonym strategy = "env \<Rightarrow> column \<Rightarrow> string \<Rightarrow> pytype option \<Rightarrow> error + condition option"

definition compare_with :: "comparison \<Rightarrow> strategy" where
  "compare_with cmp en column raw pytype =
     (case coerce_value en column raw pytype of
        Inl e \<Rightarrow> Inl e
      | Inr v \<Rightarrow> Inr (Some (Compare cmp (Col column) v)))"

definition strategy_eq :: strategy where
  "strategy_eq = compare_with Op_eq"

definition strategy_ne :: strategy where
  "strategy_ne = compare_with Op_ne"

definition strategy_gt :: strategy where
  "strategy_gt = compare_with Op_gt"

definition strategy_gte :: strategy where
  "strategy_gte = compare_with Op_ge"

definition strategy_lt :: strategy where
  "strategy_lt = compare_with Op_lt"

definition strategy_lte :: strategy where
  "strategy_lte = compare_with Op_le"

definition strategy_like :: strategy where
  "strategy_like en column raw pytype = Inr (Some (Like (Col column) raw))"

definition strategy_not_like :: strategy where
  "strategy_not_like en column raw pytype = Inr (Some (Negate (Like (Col column) raw)))"

definition strategy_ilike :: strategy where
  "strategy_ilike en column raw pytype =
     (if ilike_supported column then Inr (Some (Ilike (Col column) raw))
      else Inr (Some (Like (Lower (Col column)) (lower raw))))"

definition strategy_not_ilike :: strategy where
  "strategy_not_ilike en column raw pytype =
     (if ilike_supported column then Inr (Some (Negate (Ilike (Col column) raw)))
      else Inr (Some (Negate (Like (Lower (Col column)) (lower raw)))))"

text \<open>The list comprehension \<^verbatim>\<open>[_coerce_value(column, v, pytype) for v in vals]\<close>.\<close>

fun coerce_each :: "env \<Rightarrow> column \<Rightarrow> pytype option \<Rightarrow> string list \<Rightarrow> error + pyval list" where
  "coerce_each en column pytype [] = Inr []"
| "coerce_each en column pytype (v # vs) =
     (case coerce_value en column v pytype of
        Inl e \<Rightarrow> Inl e
      | Inr x \<Rightarrow> (case coerce_each en column pytype vs of
                   Inl e \<Rightarrow> Inl e
                 | Inr xs \<Rightarrow> Inr (x # xs)))"

definition strategy_in :: strategy where
  "strategy_in en column raw pytype =
     (case coerce_each en column pytype (split_values raw) of
        Inl e \<Rightarrow> Inl e
      | Inr vals \<Rightarrow> Inr (Some (In_list (Col column) vals)))"

definition strategy_not_in :: strategy where
  "strategy_not_in en column raw pytype =
     (case coerce_each en column pytype (split_values raw) of
        Inl e \<Rightarrow> Inl e
      | Inr vals \<Rightarrow> Inr (Some (Negate (In_list (Col column) vals))))"

definition strategy_between :: strategy where
  "strategy_between en column raw pytype =
     (let vals = split_values raw
      in if length vals = 2 then
           (case coerce_value en column (vals ! 0) pytype of
              Inl e \<Rightarrow> Inl e
            | Inr low \<Rightarrow>
                (case coerce_value en column (vals ! 1) pytype of
                   Inl e \<Rightarrow> Inl e
                 | Inr high \<Rightarrow> Inr (Some (Between (Col column) low high))))
         else Inr None)"

definition strategy_is_null :: strategy where
  "strategy_is_null en column raw pytype = Inr (Some (Is_null (Col column)))"

definition strategy_is_not_null :: strategy where
  "strategy_is_not_null en column raw pytype = Inr (Some (Is_not_null (Col column)))"

definition strategy_starts_with :: strategy where
  "strategy_starts_with en column raw pytype =
     (let pattern = raw @ ''%''
      in if ilike_supported column then Inr (Some (Ilike (Col column) pattern))
         else Inr (Some (Like (Lower (Col column)) (lower pattern))))"

definition strategy_ends_with :: strategy where
  "strategy_ends_with en column raw pytype =
     (let pattern = ''%'' @ raw
      in if ilike_supported column then Inr (Some (Ilike (Col column) pattern))
         else Inr (Some (Like (Lower (Col column)) (lower pattern))))"

definition strategy_contains :: strategy where
  "strategy_contains en column raw pytype =
     (let pattern = ''%'' @ raw @ ''%''
      in if ilike_supported column then Inr (Some (Ilike (Col column) pattern))
         else Inr (Some (Like (Lower (Col column)) (lower pattern))))"

text \<open>
  The registry \<^verbatim>\<open>FILTER_STRATEGIES\<close>, a dictionary from operator to strategy, with its
  initial contents; \<^verbatim>\<open>register_strategy\<close> overwrites one entry.
\<close>

type_synonym registry = "FilterOperator \<Rightarrow> strategy option"

fun FILTER_STRATEGIES :: registry where
  "FILTER_STRATEGIES EQ = Some strategy_eq"
| "FILTER_STRATEGIES NE = Some strategy_ne"
| "FILTER_STRATEGIES GT = Some strategy_gt"
| "FILTER_STRATEGIES GTE = Some strategy_gte"
| "FILTER_STRATEGIES LT = Some strategy_lt"
| "FILTER_STRATEGIES LTE = Some strategy_lte"
| "FILTER_STRATEGIES LIKE = Some strategy_like"
| "FILTER_STRATEGIES NOT_LIKE = Some strategy_not_like"
| "FILTER_STRATEGIES ILIKE = Some strategy_ilike"
| "FILTER_STRATEGIES NOT_ILIKE = Some strategy_not_ilike"
| "FILTER_STRATEGIES IN = Some strategy_in"
| "FILTER_STRATEGIES NOT_IN = Some strategy_not_in"
| "FILTER_STRATEGIES BETWEEN = Some strategy_between"
| "FILTER_STRATEGIES IS_NULL = Some strategy_is_null"
| "FILTER_STRATEGIES IS_NOT_NULL = Some strategy_is_not_null"
| "FILTER_STRATEGIES STARTS_WITH = Some strategy_starts_with"
| "FILTER_STRATEGIES ENDS_WITH = Some strategy_ends_with"
| "FILTER_STRATEGIES CONTAINS = Some strategy_contains"

definition register_strategy :: "registry \<Rightarrow> FilterOperator \<Rightarrow> strategy \<Rightarrow> registry" where
  "register_strategy reg operator strategy = reg(operator \<mapsto> strategy)"


subsection \<open>Queries\<close>

text \<open>
  A \<^verbatim>\<open>ColumnCollection\<close> is used through two methods only: \<^verbatim>\<open>get(name)\<close> and
  \<^verbatim>\<open>keys()\<close>.
\<close>

record column_collection =
  cc_get :: "string \<Rightarrow> column option"
  cc_keys :: "string list"

text \<open>
  What \<^verbatim>\<open>getattr(entity, field, None)\<close> can find on the mapped class of a query: a
  column element, an object with a \<^verbatim>\<open>__clause_element__\<close> method (a hybrid property;
  the call yields a column element or raises), or some other Python value.
\<close>

datatype entity_attribute =
    Column_element column
  | Clause_holder "error + column"
  | Plain_value

record entity =
  entity_attr :: "string \<Rightarrow> entity_attribute option attr"

text \<open>
  A \<^verbatim>\<open>Select\<close>: its selected columns, the \<^verbatim>\<open>"entity"\<close> entry of each of its
  \<^verbatim>\<open>column_descriptions\<close>, and the clauses the engines add to it.
\<close>

record select =
  selected_columns :: column_collection
  column_descriptions :: "entity option list attr"
  whereclause :: "condition list"
  order_by :: "(column \<times> SortingOrder) list"
  offset_clause :: "int option"
  limit_clause :: "int option"

subsection \<open>FilterEngine\<close>

record FilterEngine =
  fe_strict_mode :: bool
  type_cache :: "nat \<Rightarrow> pytype option option"

definition FilterEngine_init :: "bool \<Rightarrow> FilterEngine" where
  "FilterEngine_init strict = \<lparr>fe_strict_mode = strict, type_cache = Map.empty\<rparr>"

text \<open>
  \<^verbatim>\<open>get_column_type\<close>: the type is read once for each column identity and then taken
  from the cache. Of the exceptions of the read, \<^verbatim>\<open>AttributeError\<close> and
  \<^verbatim>\<open>NotImplementedError\<close> are caught and stored as \<^verbatim>\<open>None\<close>.
\<close>

definition get_column_type ::
  "FilterEngine \<Rightarrow> column \<Rightarrow> error + (pytype option \<times> FilterEngine)" where
  "get_column_type fe column =
     (case type_cache fe (col_id column) of
        Some t \<Rightarrow> Inr (t, fe)
      | None \<Rightarrow>
          (case getattr_default (python_type column) of
             Inr t \<Rightarrow> Inr (t, fe\<lparr>type_cache := (type_cache fe)(col_id column \<mapsto> t)\<rparr>)
           | Inl e \<Rightarrow>
               if e = AttributeError \<or> e = NotImplementedError
               then Inr (None, fe\<lparr>type_cache := (type_cache fe)(col_id column \<mapsto> None)\<rparr>)
               else Inl e))"

text \<open>The body of the \<^verbatim>\<open>try\<close> block of \<^verbatim>\<open>get_entity_attribute\<close>.\<close>

definition get_entity_attribute_try :: "select \<Rightarrow> string \<Rightarrow> error + column option" where
  "get_entity_attribute_try query field =
     (case getattr (column_descriptions query) of
        Inl e \<Rightarrow> Inl e
      | Inr [] \<Rightarrow> Inr None
      | Inr (None # ds) \<Rightarrow> Inr None
      | Inr (Some ent # ds) \<Rightarrow>
          (case getattr_default (entity_attr ent field) of
             Inl e \<Rightarrow> Inl e
           | Inr None \<Rightarrow> Inr None
           | Inr (Some (Column_element c)) \<Rightarrow> Inr (Some c)
           | Inr (Some (Clause_holder r)) \<Rightarrow> map_sum id Some r
           | Inr (Some Plain_value) \<Rightarrow> Inr None))"

text \<open>\<^verbatim>\<open>except Exception: return None\<close>\<close>

definition get_entity_attribute :: "select \<Rightarrow> string \<Rightarrow> column option" where
  "get_entity_attribute query field =
     (case get_entity_attribute_try query field of
        Inl e \<Rightarrow> None
      | Inr r \<Rightarrow> r)"

definition build_filter_condition ::
  "env \<Rightarrow> registry \<Rightarrow> column \<Rightarrow> Filter \<Rightarrow> pytype option \<Rightarrow> error + condition option" where
  "build_filter_condition en reg column f pytype =
     (case reg (f_operator f) of
        None \<Rightarrow> Inr None
      | Some strategy \<Rightarrow> strategy en column (f_value f) pytype)"

text \<open>
  The column a field name stands for: the stored column of that name, else the computed
  attribute of the entity.
\<close>

definition resolve_field :: "select \<Rightarrow> column_collection \<Rightarrow> string \<Rightarrow> column option" where
  "resolve_field query columns_map field =
     (case cc_get columns_map field of
        Some c \<Rightarrow> Some c
      | None \<Rightarrow> get_entity_attribute query field)"

definition unknown_field_error :: "column_collection \<Rightarrow> string \<Rightarrow> error" where
  "unknown_field_error columns_map field =
     HTTPException 400
       (''Unknown field '' @ [CHR 0x27] @ field @ [CHR 0x27] @ ''. Available fields: ''
          @ join '', '' (sort (cc_keys columns_map)))"

text \<open>
  The \<^verbatim>\<open>for\<close> loop of \<^verbatim>\<open>apply_filters\<close>, with the list \<open>conditions\<close> and the engine
  (its type cache) as the state of the loop.
\<close>

fun filter_loop ::
  "env \<Rightarrow> registry \<Rightarrow> select \<Rightarrow> column_collection \<Rightarrow> FilterEngine \<Rightarrow> condition list
     \<Rightarrow> Filter list \<Rightarrow> error + (condition list \<times> FilterEngine)" where
  "filter_loop en reg query columns_map fe conditions [] = Inr (conditions, fe)"
| "filter_loop en reg query columns_map fe conditions (f # fs) =
     (case resolve_field query columns_map (f_field f) of
        None \<Rightarrow>
          if fe_strict_mode fe then Inl (unknown_field_error columns_map (f_field f))
          else filter_loop en reg query columns_map fe conditions fs
      | Some column \<Rightarrow>
          (case get_column_type fe column of
             Inl e \<Rightarrow> Inl e
           | Inr (pytype, fe') \<Rightarrow>
               (case build_filter_condition en reg column f pytype of
                  Inl e \<Rightarrow> Inl e
                | Inr None \<Rightarrow> filter_loop en reg query columns_map fe' conditions fs
                | Inr (Some condition) \<Rightarrow>
                    filter_loop en reg query columns_map fe' (conditions @ [condition]) fs)))"

text \<open>\<^verbatim>\<open>query.where(*conditions)\<close>\<close>

definition where_all :: "select \<Rightarrow> condition list \<Rightarrow> select" where
  "where_all query conditions = query\<lparr>whereclause := whereclause query @ conditions\<rparr>"

definition apply_filters ::
  "env \<Rightarrow> registry \<Rightarrow> FilterEngine \<Rightarrow> select \<Rightarrow> column_collection \<Rightarrow> Filter list option
     \<Rightarrow> error + (select \<times> FilterEngine)" where
  "apply_filters en reg fe query columns_map filters =
     (case filters of
        None \<Rightarrow> Inr (query, fe)
      | Some [] \<Rightarrow> Inr (query, fe)
      | Some fs \<Rightarrow>
          (case filter_loop en reg query columns_map fe [] fs of
             Inl e \<Rightarrow> Inl e
           | Inr (conditions, fe') \<Rightarrow>
               Inr (if conditions \<noteq> [] then where_all query conditions else query, fe')))"

section \<open>sorting.py\<close>

definition unknown_sort_field_error :: "column_collection \<Rightarrow> string \<Rightarrow> error" where
  "unknown_sort_field_error columns_map field =
     HTTPException 400
       (''Unknown sort field '' @ [CHR 0x27] @ field @ [CHR 0x27] @ ''. Available fields: ''
          @ join '', '' (sort (cc_keys columns_map)))"

text \<open>\<^verbatim>\<open>SortEngine.apply_sort\<close>; the engine's only field is \<open>strict_mode\<close>.\<close>

definition apply_sort ::
  "bool \<Rightarrow> select \<Rightarrow> column_collection \<Rightarrow> SortingQuery option \<Rightarrow> error + select" where
  "apply_sort strict query columns_map sorting =
     (case sorting of
        None \<Rightarrow> Inr query
      | Some sq \<Rightarrow>
          if sort_by sq = [] then Inr query
          else (case resolve_field query columns_map (sort_by sq) of
                  None \<Rightarrow>
                    if strict then Inl (unknown_sort_field_error columns_map (sort_by sq))
                    else Inr query
                | Some column \<Rightarrow>
                    Inr (query\<lparr>order_by := order_by query @ [(column, sort_order sq)]\<rparr>)))"


section \<open>pagination.py\<close>

subsection \<open>Sessions\<close>

record dialect =
  dialect_name :: "string attr"

record bind =
  bind_dialect :: "dialect attr"

record sync_session =
  sync_bind :: "bind option attr"

text \<open>
  What \<^verbatim>\<open>session.exec(...).all()\<close> hands out for one fetched row: a mapped entity, a
  bare value or a tuple with named fields.
\<close>

datatype item =
    Bare pyval
  | Named_tuple "(string \<times> pyval) list"
  | Entity "(string \<times> pyval) list"

text \<open>
  A session, as far as the source uses it: the attributes the dialect probe reads, and
  the database behind it. \<open>fetch s q\<close> is the list of rows the backend returns for the
  statement \<open>q\<close> before any offset and limit, one value for each column of \<open>q\<close>, in
  the order the backend returns them (the same on every execution). \<open>present s q\<close> is
  how \<^verbatim>\<open>session.exec\<close> presents a row of \<open>q\<close>.
\<close>

record session =
  session_bind :: "bind option attr"
  session_sync_session :: "sync_session option attr"
  fetch :: "select \<Rightarrow> pyval list list"
  present :: "select \<Rightarrow> pyval list \<Rightarrow> item"

subsection \<open>Dialect detection\<close>

text \<open>\<^verbatim>\<open>bind.dialect.name == "postgresql"\<close>\<close>

definition dialect_is_postgresql :: "bind \<Rightarrow> error + bool" where
  "dialect_is_postgresql b =
     (case getattr (bind_dialect b) of
        Inl e \<Rightarrow> Inl e
      | Inr d \<Rightarrow> (case getattr (dialect_name d) of
                   Inl e \<Rightarrow> Inl e
                 | Inr n \<Rightarrow> Inr (n = ''postgresql'')))"

text \<open>
  The body of the \<^verbatim>\<open>try\<close> block of \<^verbatim>\<open>_detect_postgresql\<close>. \<open>Inr None\<close> stands for
  leaving the block without a \<^verbatim>\<open>return\<close>.
\<close>

definition detect_try :: "session \<Rightarrow> error + bool option" where
  "detect_try s =
     (case getattr_default (session_bind s) of
        Inl e \<Rightarrow> Inl e
      | Inr (Some b) \<Rightarrow> map_sum id Some (dialect_is_postgresql b)
      | Inr None \<Rightarrow>
          (case getattr_default (session_sync_session s) of
             Inl e \<Rightarrow> Inl e
           | Inr None \<Rightarrow> Inr None
           | Inr (Some ss) \<Rightarrow>
               (case getattr_default (sync_bind ss) of
                  Inl e \<Rightarrow> Inl e
                | Inr None \<Rightarrow> Inr None
                | Inr (Some b) \<Rightarrow> map_sum id Some (dialect_is_postgresql b))))"

text \<open>
  \<^verbatim>\<open>except Exception: pass\<close> swallows every exception of the block, and the function
  ends with \<^verbatim>\<open>return False\<close>.
\<close>

definition detect_postgresql :: "session \<Rightarrow> error + bool" where
  "detect_postgresql s =
     (case detect_try s of
        Inl e \<Rightarrow> Inr False
      | Inr (Some r) \<Rightarrow> Inr r
      | Inr None \<Rightarrow> Inr False)"

subsection \<open>PaginationEngine\<close>

text \<open>
  The request is used for its URL only: \<open>include_query_params r p n\<close> is
  \<^verbatim>\<open>str(request.url.include_query_params(page=p, per_page=n))\<close>.
\<close>

record request =
  include_query_params :: "int \<Rightarrow> int \<Rightarrow> string"

record PaginationEngine =
  pagination :: PaginationQuery
  engine_request :: request
  use_window_function :: "bool option"

text \<open>
  \<^verbatim>\<open>_should_use_window_function\<close>: the explicit flag wins, otherwise the dialect is
  probed.
\<close>

definition should_use_window_function :: "PaginationEngine \<Rightarrow> session \<Rightarrow> error + bool" where
  "should_use_window_function pe s =
     (case use_window_function pe of
        Some flag \<Rightarrow> Inr flag
      | None \<Rightarrow> detect_postgresql s)"

text \<open>
  \<^verbatim>\<open>OFFSET\<close> and \<^verbatim>\<open>LIMIT\<close> on a list of rows. Both numbers are non-negative for a
  \<open>PaginationQuery\<close> with \<open>page \<ge> 1\<close> and \<open>per_page \<ge> 1\<close>.
\<close>

definition offset_limit :: "int option \<Rightarrow> int option \<Rightarrow> 'a list \<Rightarrow> 'a list" where
  "offset_limit skip count rows =
     (let rest = (case skip of None \<Rightarrow> rows | Some k \<Rightarrow> drop (nat k) rows)
      in case count of None \<Rightarrow> rest | Some n \<Rightarrow> take (nat n) rest)"

text \<open>The rows of a statement with its own offset and limit applied.\<close>

definition rows_of :: "session \<Rightarrow> select \<Rightarrow> pyval list list" where
  "rows_of s q =
     offset_limit (offset_clause q) (limit_clause q)
       (fetch s (q\<lparr>offset_clause := None, limit_clause := None\<rparr>))"

text \<open>\<^verbatim>\<open>query.offset((page - 1) * per_page).limit(per_page)\<close>\<close>

definition page_of :: "PaginationEngine \<Rightarrow> select \<Rightarrow> select" where
  "page_of pe query =
     query\<lparr>offset_clause := Some ((page (pagination pe) - 1) * per_page (pagination pe)),
            limit_clause := Some (per_page (pagination pe))\<rparr>"

definition paginate :: "PaginationEngine \<Rightarrow> select \<Rightarrow> session \<Rightarrow> item list" where
  "paginate pe query s = map (present s query) (rows_of s (page_of pe query))"

text \<open>
  \<^verbatim>\<open>_count_total_static\<close>: \<^verbatim>\<open>SELECT count(*) FROM (query)\<close>, the number of rows of
  the query.
\<close>

definition count_total_static :: "select \<Rightarrow> session \<Rightarrow> int" where
  "count_total_static query s = int (length (rows_of s query))"

definition count_total :: "PaginationEngine \<Rightarrow> select \<Rightarrow> session \<Rightarrow> int" where
  "count_total pe query s = count_total_static query s"

text \<open>
  The rows of the window statement: every row of the query followed by
  \<^verbatim>\<open>COUNT(*) OVER ()\<close>, which counts the rows before offset and limit cut the page
  out. A result row is read by position and by key.
\<close>

definition window_rows :: "PaginationEngine \<Rightarrow> select \<Rightarrow> session \<Rightarrow> (string \<times> pyval) list list" where
  "window_rows pe query s =
     (let sub = rows_of s query;
          keys = cc_keys (selected_columns query) @ [''_total_count''];
          all_rows = map (\<lambda>r. zip keys (r @ [PyInt (int (length sub))])) sub
      in offset_limit
           (Some ((page (pagination pe) - 1) * per_page (pagination pe)))
           (Some (per_page (pagination pe))) all_rows)"

text \<open>
  The field names \<^verbatim>\<open>namedtuple\<close> accepts: identifiers that do not start with an
  underscore, no keyword, no name twice; otherwise it raises \<^verbatim>\<open>ValueError\<close>.
\<close>

definition is_alpha :: "char \<Rightarrow> bool" where
  "is_alpha c =
     (let n = (of_char c :: nat) in (65 \<le> n \<and> n \<le> 90) \<or> (97 \<le> n \<and> n \<le> 122))"

definition python_keywords :: "string list" where
  "python_keywords =
     [''False'', ''None'', ''True'', ''and'', ''as'', ''assert'', ''async'', ''await'', ''break'',
      ''class'', ''continue'', ''def'', ''del'', ''elif'', ''else'', ''except'', ''finally'', ''for'',
      ''from'', ''global'', ''if'', ''import'', ''in'', ''is'', ''lambda'', ''nonlocal'', ''not'', ''or'',
      ''pass'', ''raise'', ''return'', ''try'', ''while'', ''with'', ''yield'']"

definition valid_field_name :: "string \<Rightarrow> bool" where
  "valid_field_name name =
     (case name of
        [] \<Rightarrow> False
      | c # cs \<Rightarrow>
          is_alpha c \<and> (\<forall>d \<in> set cs. is_alpha d \<or> is_digit d \<or> d = CHR ''_'')
          \<and> name \<notin> set python_keywords)"

definition namedtuple :: "string list \<Rightarrow> error + string list" where
  "namedtuple col_names =
     (if (\<forall>n \<in> set col_names. valid_field_name n) \<and> distinct col_names
      then Inr col_names else Inl ValueError)"

text \<open>\<^verbatim>\<open>row._mapping[k]\<close> and \<^verbatim>\<open>row._total_count\<close>\<close>

definition row_lookup :: "(string \<times> pyval) list \<Rightarrow> string \<Rightarrow> error + pyval" where
  "row_lookup row k = (case map_of row k of None \<Rightarrow> Inl KeyError | Some v \<Rightarrow> Inr v)"

fun lookup_each :: "(string \<times> pyval) list \<Rightarrow> string list \<Rightarrow> error + (string \<times> pyval) list" where
  "lookup_each row [] = Inr []"
| "lookup_each row (k # ks) =
     (case row_lookup row k of
        Inl e \<Rightarrow> Inl e
      | Inr v \<Rightarrow> (case lookup_each row ks of
                   Inl e \<Rightarrow> Inl e
                 | Inr vs \<Rightarrow> Inr ((k, v) # vs)))"

fun rebuild_rows ::
  "string list \<Rightarrow> (string \<times> pyval) list list \<Rightarrow> error + item list" where
  "rebuild_rows col_names [] = Inr []"
| "rebuild_rows col_names (row # rows) =
     (case lookup_each row col_names of
        Inl e \<Rightarrow> Inl e
      | Inr named \<Rightarrow> (case rebuild_rows col_names rows of
                       Inl e \<Rightarrow> Inl e
                     | Inr items \<Rightarrow> Inr (Named_tuple named # items)))"

text \<open>The total as an integer: the count column holds one.\<close>

fun as_int :: "pyval \<Rightarrow> error + int" where
  "as_int (PyInt n) = Inr n"
| "as_int v = Inl TypeError"

text \<open>\<^verbatim>\<open>[row[0] for row in rows]\<close>; every row has two elements here.\<close>

fun first_of_each :: "(string \<times> pyval) list list \<Rightarrow> item list" where
  "first_of_each [] = []"
| "first_of_each (row # rows) =
     (case row of [] \<Rightarrow> first_of_each rows | (k, v) # kvs \<Rightarrow> Bare v # first_of_each rows)"

definition paginate_with_window ::
  "PaginationEngine \<Rightarrow> select \<Rightarrow> session \<Rightarrow> error + (item list \<times> int)" where
  "paginate_with_window pe query s =
     (case window_rows pe query s of
        [] \<Rightarrow> Inr ([], 0)
      | row0 # others \<Rightarrow>
          (case row_lookup row0 ''_total_count'' of
             Inl e \<Rightarrow> Inl e
           | Inr tc \<Rightarrow>
               (case as_int tc of
                  Inl e \<Rightarrow> Inl e
                | Inr tot \<Rightarrow>
                    if length row0 = 2 then Inr (first_of_each (row0 # others), tot)
                    else
                      (case namedtuple (filter (\<lambda>k. k \<noteq> ''_total_count'') (map fst row0)) of
                         Inl e \<Rightarrow> Inl e
                       | Inr col_names \<Rightarrow>
                           (case rebuild_rows col_names (row0 # others) of
                              Inl e \<Rightarrow> Inl e
                            | Inr data \<Rightarrow> Inr (data, tot))))))"

text \<open>The two statements after the \<^verbatim>\<open>if\<close> of \<^verbatim>\<open>paginate_with_count\<close>: count, then page.\<close>

definition paginate_two_queries ::
  "PaginationEngine \<Rightarrow> select \<Rightarrow> session \<Rightarrow> item list \<times> int" where
  "paginate_two_queries pe query s =
     (let tot = count_total pe query s;
          data = paginate pe query s
      in (data, tot))"

definition paginate_with_count ::
  "PaginationEngine \<Rightarrow> select \<Rightarrow> session \<Rightarrow> error + (item list \<times> int)" where
  "paginate_with_count pe query s =
     (case should_use_window_function pe s of
        Inl e \<Rightarrow> Inl e
      | Inr True \<Rightarrow> paginate_with_window pe query s
      | Inr False \<Rightarrow> Inr (paginate_two_queries pe query s))"

subsection \<open>The response\<close>

text \<open>
  \<^verbatim>\<open>max(1, ceil(total_items / per_page)) if total_items is not None else 1\<close>: the
  division is Python's true division, on floats.
\<close>

definition compute_total_pages :: "int option \<Rightarrow> int \<Rightarrow> error + int" where
  "compute_total_pages tot per =
     (case tot of
        None \<Rightarrow> Inr 1
      | Some n \<Rightarrow> (case py_truediv n per of
                    Inl e \<Rightarrow> Inl e
                  | Inr r \<Rightarrow> Inr (max 1 (py_ceil r))))"

text \<open>
  \<^verbatim>\<open>build_response(self, total_items, data_page, filters=None, sorting=None)\<close>. The
  \<open>Meta\<close> it builds gets no \<open>or_filters\<close> argument, so that field keeps its default
  \<^verbatim>\<open>None\<close>.
\<close>

definition build_response ::
  "PaginationEngine \<Rightarrow> int option \<Rightarrow> 'a list \<Rightarrow> Filter list option \<Rightarrow> SortingQuery option
     \<Rightarrow> error + 'a PaginatedResponse" where
  "build_response pe tot data_page filters sorting =
     (let per = per_page (pagination pe);
          cur = page (pagination pe);
          url = include_query_params (engine_request pe)
      in case compute_total_pages tot per of
           Inl e \<Rightarrow> Inl e
         | Inr pages \<Rightarrow>
             Inr \<lparr>response_data = data_page,
                  response_meta =
                    \<lparr>meta_pagination =
                       \<lparr>total_items = tot, pagination_per_page = per,
                        current_page = cur, total_pages = Some pages\<rparr>,
                     meta_filters = filters,
                     meta_or_filters = None,
                     meta_sort = sorting\<rparr>,
                  response_links =
                    \<lparr>link_self = url cur per,
                     link_first = url 1 per,
                     link_next = (if cur < pages then Some (url (cur + 1) per) else None),
                     link_prev = (if cur > 1 then Some (url (cur - 1) per) else None),
                     link_last = Some (url pages per)\<rparr>\<rparr>)"

text \<open>
  Calling a function with keyword arguments: a keyword that is not among the
  parameters is a \<^verbatim>\<open>TypeError\<close>.
\<close>

definition build_response_parameters :: "string list" where
  "build_response_parameters = [''total_items'', ''data_page'', ''filters'', ''sorting'']"

definition check_keywords :: "string list \<Rightarrow> string list \<Rightarrow> error + unit" where
  "check_keywords parameters given =
     (if list_all (\<lambda>k. k \<in> set parameters) given then Inr () else Inl TypeError)"


section \<open>fsp.py: FSPManager\<close>

record FSPManager =
  mgr_request :: request
  mgr_filters :: "Filter list option"
  mgr_or_filters :: "OrFilterGroup list option"
  mgr_sorting :: "SortingQuery option"
  mgr_pagination :: PaginationQuery
  filter_engine :: FilterEngine
  sort_engine_strict :: bool
  pagination_engine :: PaginationEngine

text \<open>\<^verbatim>\<open>FSPManager.__init__\<close>\<close>

definition FSPManager_init ::
  "request \<Rightarrow> Filter list option \<Rightarrow> SortingQuery option \<Rightarrow> PaginationQuery
     \<Rightarrow> OrFilterGroup list option \<Rightarrow> bool \<Rightarrow> bool option \<Rightarrow> FSPManager" where
  "FSPManager_init req filters sorting pq or_filters strict use_window =
     \<lparr>mgr_request = req, mgr_filters = filters, mgr_or_filters = or_filters,
      mgr_sorting = sorting, mgr_pagination = pq,
      filter_engine = FilterEngine_init strict,
      sort_engine_strict = strict,
      pagination_engine =
        \<lparr>pagination = pq, engine_request = req, use_window_function = use_window\<rparr>\<rparr>"

text \<open>
  \<^verbatim>\<open>_apply_or_filters\<close> calls \<^verbatim>\<open>self._filter_engine.apply_or_filter_groups(...)\<close>.
  The class \<^verbatim>\<open>FilterEngine\<close> of \<^verbatim>\<open>filters.py\<close> defines \<^verbatim>\<open>get_column_type\<close>,
  \<^verbatim>\<open>get_entity_attribute\<close>, \<^verbatim>\<open>build_filter_condition\<close>, \<^verbatim>\<open>apply_filters\<close> and
  \<^verbatim>\<open>register_strategy\<close> and no method of that name, so the attribute access raises
  \<^verbatim>\<open>AttributeError\<close> before anything is applied.
\<close>

definition FilterEngine_attributes :: "string list" where
  "FilterEngine_attributes =
     [''strict_mode'', ''_type_cache'', ''get_column_type'', ''get_entity_attribute'',
      ''build_filter_condition'', ''apply_filters'', ''register_strategy'']"

definition lookup_method :: "string list \<Rightarrow> string \<Rightarrow> error + unit" where
  "lookup_method attributes name = (if name \<in> set attributes then Inr () else Inl AttributeError)"

definition apply_or_filters ::
  "FilterEngine \<Rightarrow> select \<Rightarrow> column_collection \<Rightarrow> OrFilterGroup list option
     \<Rightarrow> error + (select \<times> FilterEngine)" where
  "apply_or_filters fe query columns_map or_filters =
     (case lookup_method FilterEngine_attributes ''apply_or_filter_groups'' of
        Inl e \<Rightarrow> Inl e
      | Inr u \<Rightarrow> Inr (query, fe))"

text \<open>
  \<^verbatim>\<open>generate_response\<close>: filters, OR groups, sort, page and count, response. The last
  call passes five keyword arguments to \<^verbatim>\<open>build_response\<close>.
\<close>

definition generate_response ::
  "env \<Rightarrow> registry \<Rightarrow> FSPManager \<Rightarrow> select \<Rightarrow> session \<Rightarrow> error + item PaginatedResponse" where
  "generate_response en reg m query s =
     (let columns_map = selected_columns query
      in case apply_filters en reg (filter_engine m) query columns_map (mgr_filters m) of
           Inl e \<Rightarrow> Inl e
         | Inr (q1, fe1) \<Rightarrow>
             (case apply_or_filters fe1 q1 columns_map (mgr_or_filters m) of
                Inl e \<Rightarrow> Inl e
              | Inr (q2, fe2) \<Rightarrow>
                  (case apply_sort (sort_engine_strict m) q2 columns_map (mgr_sorting m) of
                     Inl e \<Rightarrow> Inl e
                   | Inr q3 \<Rightarrow>
                       (case paginate_with_count (pagination_engine m) q3 s of
                          Inl e \<Rightarrow> Inl e
                        | Inr (data_page, n) \<Rightarrow>
                            (case check_keywords build_response_parameters
                                    [''total_items'', ''data_page'', ''filters'', ''or_filters'',
                                     ''sorting''] of
                               Inl e \<Rightarrow> Inl e
                             | Inr u \<Rightarrow>
                                 build_response (pagination_engine m) (Some n) data_page
                                   (mgr_filters m) (mgr_sorting m))))))"


section \<open>Notions of the specification and example inputs\<close>



text \<open>
  Library functions for the examples: no date parses, no class besides the five known
  ones accepts a string.
\<close>

definition example_env :: env where
  "example_env =
     \<lparr>fromisoformat = (\<lambda>raw. Inl ValueError),
      dateutil_parse = (\<lambda>raw. Inl ValueError),
      str_is_instance = (\<lambda>n. False),
      construct = (\<lambda>n raw. Inl TypeError)\<rparr>"

text \<open>An integer column and a boolean column, as in the models of the tests.\<close>

definition age_column :: column where
  "age_column = \<lparr>col_id = 1, python_type = Has (Some T_int), has_ilike = False\<rparr>"

definition active_column :: column where
  "active_column = \<lparr>col_id = 2, python_type = Has (Some T_bool), has_ilike = True\<rparr>"

text \<open>A query over the two columns, with no mapped entity.\<close>

definition example_columns :: column_collection where
  "example_columns =
     \<lparr>cc_get = map_of [(''age'', age_column), (''active'', active_column)],
      cc_keys = [''age'', ''active'']\<rparr>"

definition example_query :: select where
  "example_query =
     \<lparr>selected_columns = example_columns, column_descriptions = Has [],
      whereclause = [], order_by = [], offset_clause = None, limit_clause = None\<rparr>"

text \<open>
  A session with no bind at all, a session whose \<open>bind\<close> attribute raises when read,
  and a session bound to PostgreSQL. The database behind each holds one row for every
  statement.
\<close>

definition example_fetch :: "select \<Rightarrow> pyval list list" where
  "example_fetch q = [[PyInt 30, PyBool True]]"

definition example_present :: "select \<Rightarrow> pyval list \<Rightarrow> item" where
  "example_present q r = Named_tuple (zip (cc_keys (selected_columns q)) r)"

definition unbound_session :: session where
  "unbound_session =
     \<lparr>session_bind = Missing, session_sync_session = Missing,
      fetch = example_fetch, present = example_present\<rparr>"


definition example_request :: request where
  "example_request = \<lparr>include_query_params = (\<lambda>p n. ''/items'')\<rparr>"

definition example_engine :: "int \<Rightarrow> int \<Rightarrow> bool option \<Rightarrow> PaginationEngine" where
  "example_engine p n flag =
     \<lparr>pagination = \<lparr>page = p, per_page = n\<rparr>, engine_request = example_request,
      use_window_function = flag\<rparr>"

text \<open>Three filters: two on the stored columns and one on a field that does not exist.\<close>

definition age_filter :: Filter where
  "age_filter = \<lparr>f_field = ''age'', f_operator = GTE, f_value = ''18''\<rparr>"


definition active_filter :: Filter where
  "active_filter = \<lparr>f_field = ''active'', f_operator = EQ, f_value = ''true''\<rparr>"

text \<open>
  A manager as the dependency injection builds it for a request with one filter and one
  search group.
\<close>

definition example_manager :: FSPManager where
  "example_manager =
     FSPManager_init example_request (Some [age_filter]) None \<lparr>page = 1, per_page = 10\<rparr>
       (Some [\<lparr>group_filters = [active_filter]\<rparr>]) False None"


section \<open>Properties\<close>

subsection \<open>Clamping of per_page\<close>

text \<open>
  C10. For every \<^verbatim>\<open>FSPConfig\<close> (one that passed the checks of \<^verbatim>\<open>__post_init__\<close>)
  and every integer \<open>per_page\<close>, \<open>validate_per_page\<close> returns a value within
  \<open>[min_per_page, max_per_page]\<close>: a value below the minimum becomes the minimum, a
  value above the maximum becomes the maximum, a value in range is returned unchanged,
  and validating twice is the same as validating once. The function has no raising
  branch: its result type is \<open>int\<close>.
\<close>

theorem validate_per_page_clamps:
  assumes "post_init c = Inr c"
  shows "min_per_page c \<le> validate_per_page c p \<and> validate_per_page c p \<le> max_per_page c
       \<and> (p < min_per_page c \<longrightarrow> validate_per_page c p = min_per_page c)
       \<and> (p > max_per_page c \<longrightarrow> validate_per_page c p = max_per_page c)
       \<and> (min_per_page c \<le> p \<and> p \<le> max_per_page c \<longrightarrow> validate_per_page c p = p)
       \<and> validate_per_page c (validate_per_page c p) = validate_per_page c p"
proof -
  from assms have "min_per_page c \<le> max_per_page c"
    by (auto simp: post_init_def split: if_splits)
  then show ?thesis
    by (auto simp: validate_per_page_def)
qed

theorem validate_per_page_clamps_witness:
  "post_init FSPConfig_default = Inr FSPConfig_default
   \<and> validate_per_page FSPConfig_default 0 = 1
   \<and> validate_per_page FSPConfig_default 250 = 100
   \<and> validate_per_page FSPConfig_default 25 = 25"
  using validate_per_page_clamps [of FSPConfig_default 0]
    validate_per_page_clamps [of FSPConfig_default 250]
    validate_per_page_clamps [of FSPConfig_default 25]
  by (simp add: post_init_def FSPConfig_default_def)

subsection \<open>Dialect detection\<close>




subsection \<open>Coercion\<close>

text \<open>
  C2. The claim: for every column, every raw string and every target type
  \<open>coerce_value\<close> raises nothing and returns the raw string when it cannot parse it. On
  an integer column the raw string \<^verbatim>\<open>inf\<close> is no integer literal, parses as the float
  infinity, and the truncation of an infinity raises \<^verbatim>\<open>OverflowError\<close>, which the
  handler for \<^verbatim>\<open>ValueError\<close> does not catch: the call raises, for every column and
  whatever the library functions do.
\<close>

theorem coerce_value_int_inf_raises:
  "coerce_value en c ''inf'' (Some T_int) = Inl OverflowError
   \<and> coerce_value en c ''-inf'' (Some T_int) = Inl OverflowError
   \<and> coerce_value en age_column ''inf'' None = Inl OverflowError"
  by (simp add: coerce_value_def coerce_int_def py_int_def py_float_def age_column_def
        strip_def is_space_def is_digit_def lower_def lower_char_def)

text \<open>
  C8. On a boolean column (the type given by the caller, or read from the column)
  \<open>coerce_value\<close> always returns a boolean, never the raw string. A string whose
  trimmed lower-case form is in neither word list is converted by its truth value: every
  non-empty string gives \<open>True\<close>, also one of whitespace only, and the empty string
  gives \<open>False\<close>.
\<close>

theorem coerce_value_bool_truthiness:
  assumes "pt = Some T_bool \<or> (pt = None \<and> python_type c = Has (Some T_bool))"
  shows "(\<exists>b. coerce_value en c raw pt = Inr (PyBool b))
       \<and> (lower (strip raw) \<notin> {''true'', ''1'', ''t'', ''yes'', ''y''}
              \<union> {''false'', ''0'', ''f'', ''no'', ''n''}
            \<longrightarrow> coerce_value en c raw pt = Inr (PyBool (raw \<noteq> [])))"
  using assms by (auto simp: coerce_value_def)

theorem coerce_value_bool_truthiness_witness:
  "python_type active_column = Has (Some T_bool)
   \<and> lower (strip '' '') = []
   \<and> coerce_value example_env active_column '' '' None = Inr (PyBool True)
   \<and> coerce_value example_env active_column [] None = Inr (PyBool False)
   \<and> coerce_value example_env active_column ''maybe'' (Some T_bool) = Inr (PyBool True)"
proof -
  have t: "python_type active_column = Has (Some T_bool)"
    by (simp add: active_column_def)
  have s1: "lower (strip '' '') = []" and s2: "lower (strip []) = []"
    and s3: "lower (strip ''maybe'') = ''maybe''"
    by (simp_all add: lower_def strip_def is_space_def lower_char_def)
  from coerce_value_bool_truthiness [of None active_column example_env "'' ''"] t s1
  have a: "coerce_value example_env active_column '' '' None = Inr (PyBool True)"
    by simp
  from coerce_value_bool_truthiness [of None active_column example_env "[]"] t s2
  have b: "coerce_value example_env active_column [] None = Inr (PyBool False)"
    by simp
  from coerce_value_bool_truthiness [of "Some T_bool" active_column example_env "''maybe''"] s3
  have c: "coerce_value example_env active_column ''maybe'' (Some T_bool) = Inr (PyBool True)"
    by simp
  from t s1 a b c show ?thesis by simp
qed

subsection \<open>Strategies\<close>







subsection \<open>Unknown fields\<close>







subsection \<open>The response and the pipeline\<close>

text \<open>
  C3. The claim: \<open>generate_response\<close> returns a response whose meta block holds the
  active filters, the OR groups and the sort, and \<open>build_response\<close> accepts and echoes
  the OR groups. In the code no call of \<open>generate_response\<close> returns a response: if
  nothing raises before, the access to the method \<^verbatim>\<open>apply_or_filter_groups\<close>, which
  \<^verbatim>\<open>FilterEngine\<close> does not define, raises. The keyword \<^verbatim>\<open>or_filters\<close> that
  \<open>generate_response\<close> passes is no parameter of \<open>build_response\<close>, and every response
  that \<open>build_response\<close> builds has no OR groups in its meta block.
\<close>

theorem generate_response_never_echoes_or_filters:
  "(\<exists>e. generate_response en reg m q s = Inl e)
   \<and> check_keywords build_response_parameters
         [''total_items'', ''data_page'', ''filters'', ''or_filters'', ''sorting'']
       = Inl TypeError
   \<and> (case build_response pe n d fs so of
         Inl e \<Rightarrow> True
       | Inr r \<Rightarrow> meta_or_filters (response_meta r) = None)"
proof -
  have missing: "apply_or_filters fe q' cm groups = Inl AttributeError" for fe q' cm groups
    by (simp add: apply_or_filters_def lookup_method_def FilterEngine_attributes_def)
  have "\<exists>e. generate_response en reg m q s = Inl e"
  proof (cases "apply_filters en reg (filter_engine m) q (selected_columns q) (mgr_filters m)")
    case (Inl e)
    then show ?thesis by (simp add: generate_response_def)
  next
    case (Inr r)
    then show ?thesis by (cases r) (simp add: generate_response_def missing)
  qed
  moreover have "check_keywords build_response_parameters
         [''total_items'', ''data_page'', ''filters'', ''or_filters'', ''sorting'']
       = Inl TypeError"
    by (simp add: check_keywords_def build_response_parameters_def)
  moreover have "case build_response pe n d fs so of
         Inl e \<Rightarrow> True
       | Inr r \<Rightarrow> meta_or_filters (response_meta r) = None"
    by (simp add: build_response_def Let_def split: sum.splits)
  ultimately show ?thesis by simp
qed

theorem generate_response_never_echoes_or_filters_witness:
  "mgr_or_filters example_manager = Some [\<lparr>group_filters = [active_filter]\<rparr>]
   \<and> generate_response example_env FILTER_STRATEGIES example_manager example_query
         unbound_session
       = Inl AttributeError"
proof -
  from generate_response_never_echoes_or_filters
    [of example_env FILTER_STRATEGIES example_manager example_query unbound_session]
  obtain e where e: "generate_response example_env FILTER_STRATEGIES example_manager
      example_query unbound_session = Inl e"
    by blast
  have "\<exists>r. apply_filters example_env FILTER_STRATEGIES (filter_engine example_manager)
      example_query (selected_columns example_query) (mgr_filters example_manager) = Inr r"
    by (simp add: apply_filters_def example_manager_def FSPManager_init_def
          FilterEngine_init_def example_query_def resolve_field_def example_columns_def
          age_filter_def get_column_type_def age_column_def build_filter_condition_def
          strategy_gte_def compare_with_def coerce_value_def example_env_def coerce_int_def
          py_int_def strip_def is_space_def is_digit_def)
  then have "generate_response example_env FILTER_STRATEGIES example_manager example_query
      unbound_session = Inl AttributeError"
    by (auto simp: generate_response_def apply_or_filters_def lookup_method_def
          FilterEngine_attributes_def)
  with e show ?thesis
    by (simp add: example_manager_def FSPManager_init_def)
qed

subsection \<open>The two pagination paths\<close>

lemma offset_limit_past_end:
  "int (length rows) \<le> k \<Longrightarrow> offset_limit (Some k) (Some n) rows = []"
  by (simp add: offset_limit_def)

text \<open>
  C1. The claim: the windowed path and the two-query path return the same rows and the
  same total for every page, also for a page past the last one. For a query without an
  offset and a limit of its own and a page that starts at or after the end of the rows,
  both paths return no rows, but the windowed path finds no first row to read the count
  from and returns the total 0, while the two-query path counts the rows of the query.
\<close>

theorem window_path_total_past_last_page:
  assumes "offset_clause q = None" and "limit_clause q = None"
    and "int (length (fetch s q)) \<le> (page (pagination pe) - 1) * per_page (pagination pe)"
  shows "paginate_with_window pe q s = Inr ([], 0)
       \<and> paginate_two_queries pe q s = ([], int (length (fetch s q)))"
proof -
  have same: "q\<lparr>offset_clause := None, limit_clause := None\<rparr> = q"
    using assms(1,2) by (cases q) simp
  have rows: "rows_of s q = fetch s q"
    unfolding rows_of_def same using assms(1,2) by (simp add: offset_limit_def)
  have "(page_of pe q)\<lparr>offset_clause := None, limit_clause := None\<rparr> = q"
    using assms(1,2) by (cases q) (simp add: page_of_def)
  then have page: "rows_of s (page_of pe q) = []"
    using assms(3) by (simp add: rows_of_def offset_limit_past_end) (simp add: page_of_def offset_limit_past_end)
  have "window_rows pe q s = []"
    using assms(3) rows by (simp add: window_rows_def Let_def offset_limit_past_end)
  then have "paginate_with_window pe q s = Inr ([], 0)"
    by (simp add: paginate_with_window_def)
  moreover have "paginate_two_queries pe q s = ([], int (length (fetch s q)))"
    using rows page
    by (simp add: paginate_two_queries_def paginate_def count_total_def count_total_static_def)
  ultimately show ?thesis by simp
qed

theorem window_path_total_past_last_page_witness:
  "fetch unbound_session example_query = [[PyInt 30, PyBool True]]
   \<and> paginate_with_count (example_engine 2 10 (Some True)) example_query unbound_session
       = Inr ([], 0)
   \<and> paginate_with_count (example_engine 2 10 (Some False)) example_query unbound_session
       = Inr ([], 1)"
proof -
  have f: "fetch unbound_session example_query = [[PyInt 30, PyBool True]]"
    by (simp add: unbound_session_def example_fetch_def)
  have none: "offset_clause example_query = None" "limit_clause example_query = None"
    by (simp_all add: example_query_def)
  have past: "int (length (fetch unbound_session example_query))
       \<le> (page (pagination (example_engine 2 10 flag)) - 1)
           * per_page (pagination (example_engine 2 10 flag))" for flag
    using f by (simp add: example_engine_def)
  from window_path_total_past_last_page [OF none past, of "Some True"]
    window_path_total_past_last_page [OF none past, of "Some False"] f
  show ?thesis
    by (simp add: paginate_with_count_def should_use_window_function_def example_engine_def)
qed

subsection \<open>Float division and the number of pages\<close>

text \<open>
  The quotient of two integers as a float, and its ceiling. Below \<open>2 ^ 53\<close> the
  rounding of the quotient never reaches the next integer, so the ceiling of the float
  is the ceiling of the exact quotient.
\<close>

lemma pow2_power_int: "pow2 k = power_int 2 k"
  by (simp add: pow2_def power_int_def inverse_eq_divide power_one_over)

lemma pow2_pos: "0 < pow2 k"
  by (simp add: pow2_power_int)

lemma pow2_add: "pow2 (j + k) = pow2 j * pow2 k"
  by (simp add: pow2_power_int power_int_add)

lemma pow2_diff: "pow2 (j - k) = pow2 j / pow2 k"
  by (simp add: pow2_power_int power_int_diff)

lemma pow2_mono: "j \<le> k \<Longrightarrow> pow2 j \<le> pow2 k"
  by (simp add: pow2_power_int power_int_increasing)

lemma pow2_nat: "0 \<le> k \<Longrightarrow> pow2 k = 2 ^ nat k"
  by (simp add: pow2_def)

lemma bit_length_bounds:
  "0 < n \<Longrightarrow> 1 \<le> bit_length n \<and> 2 ^ nat (bit_length n - 1) \<le> n \<and> n < 2 ^ nat (bit_length n)"
proof (induction n rule: bit_length.induct)
  case (1 n)
  show ?case
  proof (cases "n = 1")
    case True
    then show ?thesis by (simp add: bit_length.simps [of 1] bit_length.simps [of 0])
  next
    case False
    with "1.prems" have pos: "0 < n div 2" by simp
    have ih: "1 \<le> bit_length (n div 2) \<and> 2 ^ nat (bit_length (n div 2) - 1) \<le> n div 2
        \<and> n div 2 < 2 ^ nat (bit_length (n div 2))"
      using "1.IH" "1.prems" pos by simp
    have bl: "bit_length n = 1 + bit_length (n div 2)"
      using "1.prems" by (simp add: bit_length.simps [of n])
    define k where "k = nat (bit_length (n div 2) - 1)"
    have k: "nat (bit_length (n div 2)) = Suc k" using ih unfolding k_def by linarith
    have k2: "nat (bit_length n - 1) = Suc k" "nat (bit_length n) = Suc (Suc k)"
      using ih bl k by simp_all
    have "2 ^ k \<le> n div 2" "n div 2 < 2 ^ Suc k" using ih k unfolding k_def by auto
    then have "2 ^ Suc k \<le> n" "n < 2 ^ Suc (Suc k)" by simp_all
    then show ?thesis using bl ih k2 by simp
  qed
qed


lemma bit_length_pow2:
  assumes "0 < n"
  shows "pow2 (bit_length n - 1) \<le> of_int n" and "of_int n < pow2 (bit_length n)"
proof -
  from bit_length_bounds [OF assms]
  have b: "1 \<le> bit_length n" "2 ^ nat (bit_length n - 1) \<le> n" "n < 2 ^ nat (bit_length n)"
    by simp_all
  have "(of_int (2 ^ nat (bit_length n - 1)) :: rat) \<le> of_int n"
    using b(2) by (simp only: of_int_le_iff)
  then show "pow2 (bit_length n - 1) \<le> of_int n"
    using b(1) by (simp add: pow2_nat)
  have "(of_int n :: rat) < of_int (2 ^ nat (bit_length n))"
    using b(3) by (simp only: of_int_less_iff)
  then show "of_int n < pow2 (bit_length n)"
    using b(1) by (simp add: pow2_nat)
qed

lemma floor_log2_bounds:
  assumes "0 < q"
  shows "pow2 (floor_log2 q) \<le> q" and "q < pow2 (floor_log2 q + 1)"
proof -
  obtain a b where ab: "quotient_of q = (a, b)" by (cases "quotient_of q")
  then have b: "0 < b" and q: "q = of_int a / of_int b"
    by (simp_all add: quotient_of_denom_pos quotient_of_div)
  with assms have a: "0 < a"
    by (simp add: zero_less_divide_iff)
  define d where "d = bit_length a - bit_length b"
  have fl: "floor_log2 q = (if pow2 d \<le> q then d else d - 1)"
    by (simp add: floor_log2_def ab d_def Let_def)
  have rb: "(0::rat) < of_int b" using b by simp
  have "pow2 (d - 1) = pow2 (bit_length a - 1) / pow2 (bit_length b)"
    unfolding d_def by (simp add: pow2_diff [symmetric] algebra_simps)
  also have "\<dots> \<le> of_int a / pow2 (bit_length b)"
    by (rule divide_right_mono [OF bit_length_pow2(1) [OF a] less_imp_le [OF pow2_pos]])
  also have "\<dots> < of_int a / of_int b"
    using bit_length_pow2(2) [OF b] a rb pow2_pos [of "bit_length b"]
    by (intro divide_strict_left_mono) simp_all
  finally have low: "pow2 (d - 1) < q" by (simp add: q)
  have "q < pow2 (bit_length a) / of_int b"
    unfolding q by (rule divide_strict_right_mono [OF bit_length_pow2(2) [OF a] rb])
  also have "\<dots> \<le> pow2 (bit_length a) / pow2 (bit_length b - 1)"
    using bit_length_pow2(1) [OF b] pow2_pos [of "bit_length b - 1"] pow2_pos [of "bit_length a"] rb
    by (intro divide_left_mono) (simp_all add: less_imp_le)
  also have "\<dots> = pow2 (d + 1)"
    unfolding d_def by (simp add: pow2_diff [symmetric] algebra_simps)
  finally have high: "q < pow2 (d + 1)" .
  show "pow2 (floor_log2 q) \<le> q" using low fl by (auto simp: less_imp_le)
  show "q < pow2 (floor_log2 q + 1)" using high fl by (auto simp: not_le)
qed

lemma round_half_even_error: "\<bar>of_int (round_half_even x) - x\<bar> \<le> 1 / 2"
proof -
  have "of_int \<lfloor>x\<rfloor> \<le> x" "x < of_int \<lfloor>x\<rfloor> + 1" by linarith+
  then show ?thesis
    by (auto simp: round_half_even_def Let_def abs_le_iff)
qed

lemma round_half_even_int: "round_half_even (of_int n) = n"
  by (simp add: round_half_even_def)

lemma round_binary64_error:
  "\<bar>round_binary64 q - q\<bar> \<le> pow2 (max (floor_log2 q - 52) (- 1074)) / 2"
proof -
  define e where "e = max (floor_log2 q - 52) (- 1074)"
  define m where "m = round_half_even (q / pow2 e)"
  have p: "0 < pow2 e" by (rule pow2_pos)
  have r: "round_binary64 q = of_int m * pow2 e"
    by (simp add: round_binary64_def Let_def e_def m_def)
  have "round_binary64 q - q = (of_int m - q / pow2 e) * pow2 e"
    using p by (simp add: r field_simps)
  then have "\<bar>round_binary64 q - q\<bar> = \<bar>of_int m - q / pow2 e\<bar> * pow2 e"
    using p by (simp add: abs_mult)
  also have "\<dots> \<le> (1 / 2) * pow2 e"
    using round_half_even_error [of "q / pow2 e"] p
    by (intro mult_right_mono) (simp_all add: m_def)
  finally show ?thesis by (simp add: e_def)
qed

lemma pow2_nonpos: "e \<le> 0 \<Longrightarrow> pow2 e = 1 / 2 ^ nat (- e)"
  by (cases "e = 0") (simp_all add: pow2_def)

lemma round_binary64_exact:
  assumes "0 < n" and "max (floor_log2 (of_int n) - 52) (- 1074) \<le> 0"
  shows "round_binary64 (of_int n) = of_int n"
proof -
  define e where "e = max (floor_log2 (of_int n) - 52) (- 1074)"
  have e: "e \<le> 0" using assms(2) by (simp add: e_def)
  have "(of_int n :: rat) / pow2 e = of_int (n * 2 ^ nat (- e))"
    using e by (simp add: pow2_nonpos)
  then have "round_half_even (of_int n / pow2 e) = n * 2 ^ nat (- e)"
    by (simp only: round_half_even_int)
  then have "round_binary64 (of_int n) = of_int (n * 2 ^ nat (- e)) * pow2 e"
    by (simp add: round_binary64_def Let_def e_def)
  then show ?thesis using e by (simp add: pow2_nonpos)
qed

lemma truediv_ceiling:
  fixes a b :: int
  assumes a: "0 < a" and a53: "a < 2 ^ 53" and b: "1 \<le> b"
  defines "q \<equiv> (of_int a / of_int b :: rat)"
  shows "max 1 \<lceil>round_binary64 q\<rceil> = max 1 \<lceil>q\<rceil> \<and> round_binary64 q < 2 ^ 1024"
proof -
  define fl where "fl = floor_log2 q"
  define e where "e = max (fl - 52) (- 1074)"
  define r where "r = round_binary64 q"
  have rb: "(0::rat) < of_int b" "(1::rat) \<le> of_int b" using b by simp_all
  have ra: "(0::rat) < of_int a" using a by simp
  have qpos: "0 < q" using ra rb by (simp add: q_def)
  have "q \<le> of_int a / 1"
    unfolding q_def using ra rb by (intro divide_left_mono) simp_all
  moreover have "(of_int a :: rat) < of_int (2 ^ 53)"
    using a53 by (simp only: of_int_less_iff)
  ultimately have q53: "q < 2 ^ 53" by simp
  have low: "pow2 fl \<le> q" and high: "q < pow2 (fl + 1)"
    using floor_log2_bounds [OF qpos] by (simp_all add: fl_def)
  have err: "\<bar>r - q\<bar> \<le> pow2 e / 2"
    using round_binary64_error [of q] by (simp add: r_def e_def fl_def)
  have fl52: "fl \<le> 52"
  proof (rule ccontr)
    assume "\<not> fl \<le> 52"
    then have "pow2 53 \<le> pow2 fl" by (intro pow2_mono) simp
    with low q53 show False by (simp add: pow2_def)
  qed
  show ?thesis
  proof (cases "- 1074 \<le> fl - 52")
    case True
    then have e: "e = fl - 52" by (simp add: e_def)
    have e0: "e \<le> 0" using fl52 e by simp
    have "pow2 e = pow2 fl / pow2 52" by (simp add: e pow2_diff)
    also have "\<dots> \<le> q / pow2 52"
      by (rule divide_right_mono [OF low less_imp_le [OF pow2_pos]])
    finally have "pow2 e / 2 \<le> q / 2 ^ 53" by (simp add: pow2_def)
    also have "\<dots> < 1 / of_int b"
    proof -
      have "(of_int a :: rat) < 2 ^ 53" using a53 by (metis of_int_less_numeral_power_cancel_iff)
      then have "of_int a / (of_int b * 2 ^ 53) < (2 ^ 53 :: rat) / (of_int b * 2 ^ 53)"
        using rb by (intro divide_strict_right_mono) simp_all
      then show ?thesis by (simp add: q_def)
    qed
    finally have small: "\<bar>r - q\<bar> < 1 / of_int b" using err by simp
    define n0 where "n0 = a div b"
    define m0 where "m0 = a mod b"
    have split: "a = b * n0 + m0" by (simp add: n0_def m0_def)
    have m0: "0 \<le> m0" "m0 < b" using b by (simp_all add: m0_def)
    have qsplit: "q = of_int n0 + of_int m0 / of_int b"
      using rb by (simp add: q_def split field_simps)
    have bound: "r < 2 ^ 1024"
    proof -
      have "1 / of_int b \<le> (1::rat)" using rb by simp
      with small have "r < q + 1" by (simp add: abs_less_iff)
      with q53 have "r < 2 ^ 53 + 1" by simp
      also have "\<dots> < (2 ^ 1024 :: rat)" by simp
      finally show ?thesis .
    qed
    show ?thesis
    proof (cases "m0 = 0")
      case True
      then have qn: "q = of_int n0" by (simp add: qsplit)
      with qpos have n0: "0 < n0" by simp
      have "r = of_int n0"
        unfolding r_def qn
        using round_binary64_exact [OF n0] e0 by (simp add: e_def fl_def qn)
      with qn bound show ?thesis by (simp add: r_def)
    next
      case False
      with m0 have m1: "1 \<le> m0" "m0 \<le> b - 1" by simp_all
      have f1: "1 / of_int b \<le> of_int m0 / (of_int b :: rat)"
        using m1 rb by (intro divide_right_mono) simp_all
      have f2: "of_int m0 / (of_int b :: rat) \<le> (of_int b - 1) / of_int b"
        using m1 rb by (intro divide_right_mono) (simp_all add: of_int_le_iff [symmetric] del: of_int_le_iff)
      have f3: "(of_int b - 1) / (of_int b :: rat) = 1 - 1 / of_int b"
        using rb by (simp add: field_simps)
      define d where "d = 1 / (of_int b :: rat)"
      have g: "0 < d" using rb by (simp add: d_def)
      have lowq: "of_int n0 + d \<le> q" and upq: "q \<le> of_int n0 + 1 - d"
        using f1 f2 f3 by (simp_all add: qsplit d_def)
      have rq: "q - d < r" "r < q + d"
        using small by (simp_all add: abs_less_iff d_def)
      have "of_int (n0 + 1) - 1 < q" "q \<le> of_int (n0 + 1)"
        using lowq upq g by simp_all
      then have cq: "\<lceil>q\<rceil> = n0 + 1" by (rule ceiling_unique)
      have "of_int (n0 + 1) - 1 < r" "r \<le> of_int (n0 + 1)"
        using lowq upq rq g by simp_all
      then have cr: "\<lceil>r\<rceil> = n0 + 1" by (rule ceiling_unique)
      from cq cr bound show ?thesis by (simp add: r_def)
    qed
  next
    case False
    then have e: "e = - 1074" and fl: "fl + 1 \<le> - 1022" by (simp_all add: e_def)
    have "q < pow2 (- 1022)" using high pow2_mono [OF fl] by simp
    also have "\<dots> \<le> pow2 (- 1)" by (intro pow2_mono) simp
    finally have qhalf: "q < 1 / 2" by (simp add: pow2_def)
    have "pow2 e \<le> pow2 0" unfolding e by (intro pow2_mono) simp
    then have "pow2 e / 2 \<le> 1 / 2" by (simp add: pow2_def)
    with err have "\<bar>r - q\<bar> \<le> 1 / 2" by simp
    with qhalf have r1: "r < 1" by linarith
    then have "\<lceil>r\<rceil> \<le> 1" by (simp add: ceiling_le_iff)
    moreover have "\<lceil>q\<rceil> \<le> 1" using qhalf by (simp add: ceiling_le_iff)
    moreover have "r < 2 ^ 1024" using r1 by (rule less_trans) simp
    ultimately show ?thesis by (simp add: r_def)
  qed
qed

lemma to_float_finite:
  "0 < x \<Longrightarrow> round_binary64 x < 2 ^ 1024 \<Longrightarrow> to_float x = Finite (round_binary64 x)"
  by (simp add: to_float_def Let_def)

lemma compute_total_pages_exact:
  assumes "0 \<le> n" and "n < 2 ^ 53" and "1 \<le> per"
  shows "compute_total_pages (Some n) per = Inr (max 1 \<lceil>(of_int n :: rat) / of_int per\<rceil>)"
proof (cases "n = 0")
  case True
  with assms(3) show ?thesis
    by (simp add: compute_total_pages_def py_truediv_def to_float_def py_ceil_def)
next
  case False
  with assms(1) have n: "0 < n" by simp
  have per: "(0::rat) < of_int per" using assms(3) by simp
  with n have q: "(0::rat) < of_int n / of_int per" by simp
  from truediv_ceiling [OF n assms(2,3)]
  have ceil: "max 1 \<lceil>round_binary64 (of_int n / of_int per)\<rceil>
        = max 1 \<lceil>(of_int n :: rat) / of_int per\<rceil>"
    and fits: "round_binary64 (of_int n / of_int per) < 2 ^ 1024"
    by blast+
  have "to_float (of_int n / of_int per) = Finite (round_binary64 (of_int n / of_int per))"
    by (rule to_float_finite [OF q fits])
  then have "py_truediv n per = Inr (round_binary64 (of_int n / of_int per))"
    using assms(3) by (simp add: py_truediv_def)
  then show ?thesis
    by (simp only: compute_total_pages_def option.case sum.case py_ceil_def ceil)
qed

text \<open>
  C7, for totals below \<open>2 ^ 53\<close>. For \<open>0 \<le> total_items < 2 ^ 53\<close> and
  \<open>per_page \<ge> 1\<close>, \<open>build_response\<close> returns a response with
  \<open>total_pages = max 1 (ceiling (total_items / per_page))\<close>, which is 1 for no items; the
  next link is there exactly when the current page is below \<open>total_pages\<close> and points
  to the page after the current one, and the prev link is there exactly when the current
  page is above 1 and points to the page before it.
\<close>

theorem build_response_total_pages:
  assumes "0 \<le> n" and "n < 2 ^ 53" and "1 \<le> per_page (pagination pe)"
  shows "\<exists>r. build_response pe (Some n) d fs so = Inr r
       \<and> total_pages (meta_pagination (response_meta r))
           = Some (max 1 \<lceil>(of_int n :: rat) / of_int (per_page (pagination pe))\<rceil>)
       \<and> (n = 0 \<longrightarrow> total_pages (meta_pagination (response_meta r)) = Some 1)
       \<and> link_next (response_links r)
           = (if page (pagination pe)
                  < max 1 \<lceil>(of_int n :: rat) / of_int (per_page (pagination pe))\<rceil>
              then Some (include_query_params (engine_request pe) (page (pagination pe) + 1)
                           (per_page (pagination pe)))
              else None)
       \<and> link_prev (response_links r)
           = (if 1 < page (pagination pe)
              then Some (include_query_params (engine_request pe) (page (pagination pe) - 1)
                           (per_page (pagination pe)))
              else None)"
  using compute_total_pages_exact [OF assms]
  by (simp add: build_response_def Let_def)

theorem build_response_total_pages_witness:
  "map_sum id (\<lambda>r. total_pages (meta_pagination (response_meta r)))
       (build_response (example_engine 2 10 None) (Some 25) ([] :: item list) None None)
     = Inr (Some 3)
   \<and> map_sum id (\<lambda>r. (link_next (response_links r), link_prev (response_links r)))
       (build_response (example_engine 2 10 None) (Some 25) ([] :: item list) None None)
     = Inr (Some ''/items'', Some ''/items'')
   \<and> map_sum id (\<lambda>r. total_pages (meta_pagination (response_meta r)))
       (build_response (example_engine 1 10 None) (Some 0) ([] :: item list) None None)
     = Inr (Some 1)
   \<and> map_sum id (\<lambda>r. (link_next (response_links r), link_prev (response_links r)))
       (build_response (example_engine 1 10 None) (Some 0) ([] :: item list) None None)
     = Inr (None, None)"
proof -
  have c: "\<lceil>(5 :: rat) / 2\<rceil> = 3"
    by (simp add: ceiling_eq_iff)
  from build_response_total_pages [of 25 "example_engine 2 10 None" "[] :: item list" None None]
  obtain r where r: "build_response (example_engine 2 10 None) (Some 25) ([] :: item list)
        None None = Inr r"
    and "total_pages (meta_pagination (response_meta r)) = Some 3"
    and "link_next (response_links r) = Some ''/items''"
    and "link_prev (response_links r) = Some ''/items''"
    by (auto simp: example_engine_def example_request_def c)
  moreover
  from build_response_total_pages [of 0 "example_engine 1 10 None" "[] :: item list" None None]
  obtain r' where "build_response (example_engine 1 10 None) (Some 0) ([] :: item list)
        None None = Inr r'"
    and "total_pages (meta_pagination (response_meta r')) = Some 1"
    and "link_next (response_links r') = None"
    and "link_prev (response_links r') = None"
    by (auto simp: example_engine_def example_request_def)
  ultimately show ?thesis by simp
qed

text \<open>
  The claim C7 as stated covers every total. From \<open>2 ^ 53\<close> on the float quotient
  can miss the exact one: for \<open>2 ^ 53 + 1\<close> items and one item per page the division
  rounds to \<open>2 ^ 53\<close>, so \<open>total_pages\<close> is one less than the ceiling of the exact
  quotient.
\<close>

theorem build_response_total_pages_counterexample:
  "compute_total_pages (Some 9007199254740993) 1 = Inr 9007199254740992
   \<and> max 1 \<lceil>(of_int 9007199254740993 :: rat) / of_int 1\<rceil> = 9007199254740993"
  by code_simp

end
